theory Spec2Isabelle
  imports Main "HOL-Library.Sublist"
begin

section \<open>Python values, exceptions and the outside world\<close>

text \<open>
  The script \<^verbatim>\<open>StardewValleyModUpdater.py\<close> works on values that come out of
  \<^verbatim>\<open>yaml.safe_load\<close> and \<^verbatim>\<open>json.loads\<close>. They are modelled by one datatype.
  Dictionaries keep their insertion order and are association lists; their keys are
  strings (JSON object keys always are; the script joins the manifest's mod names with
  \<^verbatim>\<open>", ".join\<close>, which accepts strings only). Python's \<^verbatim>\<open>None\<close> is \<open>PNone\<close>.
  A Python \<^verbatim>\<open>str\<close> is a \<open>string\<close>: only equality, \<^verbatim>\<open>startswith\<close> and
  \<^verbatim>\<open>endswith\<close> are applied to it, and these agree on code points and on their UTF-8 bytes.
\<close>

datatype pyval =
    PNone
  | PBool bool
  | PInt int
  | PStr string
  | PList "pyval list"
  | PDict "(string \<times> pyval) list"

text \<open>
  The exceptions that the script can meet. Only \<open>HTTPError\<close> is ever caught by name; it
  carries the status code. \<open>URLError\<close> stands for the errors of \<^verbatim>\<open>urllib\<close> that are not
  HTTP errors (no route, no name, a refused or broken connection).
\<close>

datatype exn =
    HTTPError nat
  | URLError
  | KeyError string
  | TypeError
  | AttributeError
  | OSError
  | YAMLError
  | ValueError

type_synonym bytes = string

text \<open>A directory's contents: the members written into it, newest first.\<close>

type_synonym dir = "(string \<times> bytes) list"

text \<open>
  The managed directory \<^verbatim>\<open>MODS_DIR\<close>: \<open>None\<close> when it does not exist, otherwise its
  sub-directories by name.
\<close>

type_synonym modsdir = "(string \<rightharpoonup> dir) option"

text \<open>
  The library calls of the script are answered by an environment.
  \<^item> \<open>manifest_text\<close>: \<^verbatim>\<open>open(...).read()\<close> of the manifest; \<open>None\<close> when it raises.
  \<^item> \<open>yaml_safe_load\<close>: \<open>None\<close> when the text is not valid YAML.
  \<^item> \<open>py_str\<close>: how an f-string renders a value that is not a \<^verbatim>\<open>str\<close>.
  \<^item> \<open>urlopen\<close>: \<^verbatim>\<open>urlopen(url)\<close> followed by \<^verbatim>\<open>read()\<close>: the body, or the exception.
  \<^item> \<open>json_loads\<close>: \<^verbatim>\<open>json.loads(body.decode())\<close>; \<open>None\<close> when it raises (never an
    \<open>HTTPError\<close>).
  \<^item> \<open>urlretrieve\<close>: the exception raised, if any, and the temporary file afterwards
    (\<open>None\<close> when no file was written).
  \<^item> \<open>unzip\<close>: \<^verbatim>\<open>ZipFile(file).extractall(dest)\<close> on an existing file: whether it
    raised, and the members it wrote under \<^verbatim>\<open>dest\<close> before it finished or failed.
\<close>

record env =
  manifest_text :: "string option"
  yaml_safe_load :: "string \<Rightarrow> pyval option"
  py_str :: "pyval \<Rightarrow> string"
  urlopen :: "string \<Rightarrow> exn + bytes"
  json_loads :: "bytes \<Rightarrow> pyval option"
  urlretrieve :: "pyval \<Rightarrow> exn option \<times> bytes option"
  unzip :: "bytes \<Rightarrow> bool \<times> dir"

text \<open>
  What the script does is recorded as a trace of events, each with the state of the
  managed directory at the moment it happens.
\<close>

datatype event =
    ReadManifest
  | Print string
  | RmTree
  | MakeDirs
  | UrlOpen string
  | UrlRetrieve pyval
  | ZipExtract string dir

record state =
  trace :: "(event \<times> modsdir) list"
  modsDir :: modsdir

definition emit :: "event \<Rightarrow> state \<Rightarrow> state" where
  "emit e s = s\<lparr>trace := trace s @ [(e, modsDir s)]\<rparr>"

definition events :: "state \<Rightarrow> event list" where
  "events s = map fst (trace s)"

section \<open>Python's operations on values\<close>

text \<open>\<^verbatim>\<open>v[key]\<close> for a string key: a missing key raises, and so does anything but a dict.\<close>

definition py_getitem :: "pyval \<Rightarrow> string \<Rightarrow> exn + pyval" where
  "py_getitem v key =
     (case v of
        PDict kvs \<Rightarrow> (case map_of kvs key of None \<Rightarrow> Inl (KeyError key) | Some x \<Rightarrow> Inr x)
      | _ \<Rightarrow> Inl TypeError)"

text \<open>\<^verbatim>\<open>v.keys()\<close>: only a dict has the method.\<close>

definition py_keys :: "pyval \<Rightarrow> exn + string list" where
  "py_keys v = (case v of PDict kvs \<Rightarrow> Inr (map fst kvs) | _ \<Rightarrow> Inl AttributeError)"

text \<open>\<^verbatim>\<open>for x in v\<close>: a list gives its elements, a dict its keys, a string its characters.\<close>

definition py_iter :: "pyval \<Rightarrow> exn + pyval list" where
  "py_iter v =
     (case v of
        PList xs \<Rightarrow> Inr xs
      | PDict kvs \<Rightarrow> Inr (map (\<lambda>kv. PStr (fst kv)) kvs)
      | PStr s \<Rightarrow> Inr (map (\<lambda>c. PStr [c]) s)
      | _ \<Rightarrow> Inl TypeError)"

text \<open>A value inside an f-string.\<close>

definition format_value :: "env \<Rightarrow> pyval \<Rightarrow> string" where
  "format_value env v = (case v of PStr s \<Rightarrow> s | _ \<Rightarrow> py_str env v)"

text \<open>\<^verbatim>\<open>sep.join(xs)\<close>.\<close>

fun join :: "string \<Rightarrow> string list \<Rightarrow> string" where
  "join sep [] = []"
| "join sep [x] = x"
| "join sep (x # y # ys) = x @ sep @ join sep (y # ys)"

section \<open>The script\<close>

subsection \<open>\<^verbatim>\<open>log\<close>\<close>

definition logline :: "string \<Rightarrow> string \<Rightarrow> string" where
  "logline modName str = ''['' @ modName @ '']: '' @ str"

definition log :: "string \<Rightarrow> string \<Rightarrow> state \<Rightarrow> state" where
  "log modName str s = emit (Print (logline modName str)) s"

subsection \<open>\<^verbatim>\<open>loadConfig\<close>\<close>

definition loadConfig :: "env \<Rightarrow> state \<Rightarrow> (exn + pyval) \<times> state" where
  "loadConfig env s =
     (let s1 = emit ReadManifest s in
      case manifest_text env of
        None \<Rightarrow> (Inl OSError, s1)
      | Some text \<Rightarrow>
          (case yaml_safe_load env text of
             None \<Rightarrow> (Inl YAMLError, s1)
           | Some config \<Rightarrow> (Inr config, s1)))"

subsection \<open>\<^verbatim>\<open>installFromZipUrl\<close>\<close>

text \<open>
  Extracting members into \<^verbatim>\<open>MODS_DIR/modName\<close>: directories are made as members are
  written, so nothing is made when nothing is written; present content is kept or
  overwritten, never removed.
\<close>

definition extractInto :: "modsdir \<Rightarrow> string \<Rightarrow> dir \<Rightarrow> modsdir" where
  "extractInto d modName written =
     (if written = [] then d
      else
        (let m = (case d of None \<Rightarrow> Map.empty | Some m \<Rightarrow> m)
         in Some (m(modName \<mapsto> written @ (case m modName of None \<Rightarrow> [] | Some old \<Rightarrow> old)))))"

text \<open>
  \<^verbatim>\<open>zipfile.ZipFile(downloadedZip, "r")\<close> and \<^verbatim>\<open>extractall\<close>: opening a file that does
  not exist raises before anything is written.
\<close>

definition zipExtractAll :: "env \<Rightarrow> bytes option \<Rightarrow> bool \<times> dir" where
  "zipExtractAll env file = (case file of None \<Rightarrow> (True, []) | Some b \<Rightarrow> unzip env b)"

text \<open>
  The second \<^verbatim>\<open>try\<close> block and what follows it. The bare \<^verbatim>\<open>except\<close> catches whatever
  is raised.
\<close>

definition extractZip :: "env \<Rightarrow> string \<Rightarrow> bytes option \<Rightarrow> state \<Rightarrow> (exn + unit) \<times> state" where
  "extractZip env modName file s =
     (let (failed, written) = zipExtractAll env file;
          s1 = emit (ZipExtract modName written) s;
          s2 = s1\<lparr>modsDir := extractInto (modsDir s1) modName written\<rparr>
      in if failed then (Inr (), log modName ''Unable to extract mod zip'' s2)
         else (Inr (), log modName ''Installation complete.'' s2))"

definition installFromZipUrl :: "env \<Rightarrow> string \<Rightarrow> pyval \<Rightarrow> state \<Rightarrow> (exn + unit) \<times> state" where
  "installFromZipUrl env modName zipUrl s =
     (let s1 = log modName ''Downloading mod...'' s;
          s2 = emit (UrlRetrieve zipUrl) s1;
          (raised, file) = urlretrieve env zipUrl
      in case raised of
           None \<Rightarrow> extractZip env modName file s2
         | Some (HTTPError code) \<Rightarrow>
             extractZip env modName file (log modName ''Unable to download mod zip'' s2)
         | Some e \<Rightarrow> (Inl e, s2))"

subsection \<open>\<^verbatim>\<open>installLatestGitHubRelease\<close>\<close>

definition isExactAssetName :: "string \<Rightarrow> string \<Rightarrow> bool" where
  "isExactAssetName modName name = (name = modName @ ''.zip'')"

definition isAssetNameWithVersion :: "string \<Rightarrow> string \<Rightarrow> bool" where
  "isAssetNameWithVersion modName name = (prefix (modName @ ''.'') name \<and> suffix ''.zip'' name)"

text \<open>
  The loop over the assets, with \<open>assetUrl\<close> as its variable. A name that is not a
  \<^verbatim>\<open>str\<close> compares unequal and then has no \<^verbatim>\<open>startswith\<close>.
\<close>

fun scanAssets :: "string \<Rightarrow> pyval list \<Rightarrow> pyval \<Rightarrow> exn + pyval" where
  "scanAssets modName [] assetUrl = Inr assetUrl"
| "scanAssets modName (asset # rest) assetUrl =
     (case py_getitem asset ''name'' of
        Inl e \<Rightarrow> Inl e
      | Inr (PStr name) \<Rightarrow>
          if isExactAssetName modName name \<or> isAssetNameWithVersion modName name
          then (case py_getitem asset ''browser_download_url'' of
                  Inl e \<Rightarrow> Inl e
                | Inr url \<Rightarrow> scanAssets modName rest url)
          else scanAssets modName rest assetUrl
      | Inr _ \<Rightarrow> Inl AttributeError)"

definition releaseUrl :: "env \<Rightarrow> pyval \<Rightarrow> string" where
  "releaseUrl env modRepo =
     ''https://api.github.com/repos/'' @ format_value env modRepo @ ''/releases/latest''"

text \<open>The first \<^verbatim>\<open>try\<close> block: the request, then the parse of its body.\<close>

definition fetchReleases :: "env \<Rightarrow> string \<Rightarrow> exn + pyval" where
  "fetchReleases env url =
     (case urlopen env url of
        Inl e \<Rightarrow> Inl e
      | Inr body \<Rightarrow> (case json_loads env body of None \<Rightarrow> Inl ValueError | Some v \<Rightarrow> Inr v))"

definition installLatestGitHubRelease ::
  "env \<Rightarrow> string \<Rightarrow> pyval \<Rightarrow> state \<Rightarrow> (exn + unit) \<times> state" where
  "installLatestGitHubRelease env modName modRepo s =
     (let s1 = emit (UrlOpen (releaseUrl env modRepo)) s in
      case fetchReleases env (releaseUrl env modRepo) of
        Inl (HTTPError code) \<Rightarrow>
          if code = 404 then (Inr (), log modName ''Repo is no longer hosting releases.'' s1)
          else (Inr (), log modName ''Unable to reach GitHub'' s1)
      | Inl e \<Rightarrow> (Inl e, s1)
      | Inr releases \<Rightarrow>
          (case py_getitem releases ''assets'' of
             Inl e \<Rightarrow> (Inl e, s1)
           | Inr assetsVal \<Rightarrow>
               (case py_iter assetsVal of
                  Inl e \<Rightarrow> (Inl e, s1)
                | Inr assets \<Rightarrow>
                    (case scanAssets modName assets PNone of
                       Inl e \<Rightarrow> (Inl e, s1)
                     | Inr assetUrl \<Rightarrow>
                         if assetUrl = PNone
                         then (Inr (), log modName ''Assets do not contain expected zip file.'' s1)
                         else installFromZipUrl env modName assetUrl s1))))"

subsection \<open>\<^verbatim>\<open>main\<close>\<close>

text \<open>Line 93: both mappings are looked up, and their keys taken, left to right.\<close>

definition completeModList :: "pyval \<Rightarrow> exn + string list" where
  "completeModList config =
     (case py_getitem config ''githubReleaseMods'' of
        Inl e \<Rightarrow> Inl e
      | Inr gh \<Rightarrow>
          (case py_keys gh of
             Inl e \<Rightarrow> Inl e
           | Inr ghNames \<Rightarrow>
               (case py_getitem config ''mirrorMods'' of
                  Inl e \<Rightarrow> Inl e
                | Inr mi \<Rightarrow>
                    (case py_keys mi of
                       Inl e \<Rightarrow> Inl e
                     | Inr miNames \<Rightarrow> Inr (ghNames @ miNames)))))"

text \<open>Lines 100 to 102.\<close>

definition cleanModsDir :: "state \<Rightarrow> state" where
  "cleanModsDir s =
     (let s1 = (if modsDir s \<noteq> None then (emit RmTree s)\<lparr>modsDir := None\<rparr> else s)
      in (emit MakeDirs s1)\<lparr>modsDir := Some Map.empty\<rparr>)"

text \<open>The two loops over the manifest's mappings (lines 105 to 112).\<close>

fun installGitHubMods :: "env \<Rightarrow> pyval \<Rightarrow> string list \<Rightarrow> state \<Rightarrow> (exn + unit) \<times> state" where
  "installGitHubMods env mods [] s = (Inr (), s)"
| "installGitHubMods env mods (modName # rest) s =
     (case py_getitem mods modName of
        Inl e \<Rightarrow> (Inl e, s)
      | Inr modRepo \<Rightarrow>
          (case installLatestGitHubRelease env modName modRepo s of
             (Inl e, s') \<Rightarrow> (Inl e, s')
           | (Inr u, s') \<Rightarrow> installGitHubMods env mods rest s'))"

fun installMirrorMods :: "env \<Rightarrow> pyval \<Rightarrow> string list \<Rightarrow> state \<Rightarrow> (exn + unit) \<times> state" where
  "installMirrorMods env mods [] s = (Inr (), s)"
| "installMirrorMods env mods (modName # rest) s =
     (case py_getitem mods modName of
        Inl e \<Rightarrow> (Inl e, s)
      | Inr modUrl \<Rightarrow>
          (case installFromZipUrl env modName modUrl s of
             (Inl e, s') \<Rightarrow> (Inl e, s')
           | (Inr u, s') \<Rightarrow> installMirrorMods env mods rest s'))"

text \<open>
  Iterating a mapping of the manifest. Line 93 has already called \<^verbatim>\<open>keys()\<close> on both
  mappings, so both are dicts when the loops are reached.
\<close>

definition installAll :: "env \<Rightarrow> pyval \<Rightarrow> state \<Rightarrow> (exn + unit) \<times> state" where
  "installAll env config s =
     (case py_getitem config ''githubReleaseMods'' of
        Inl e \<Rightarrow> (Inl e, s)
      | Inr gh \<Rightarrow>
          (case py_keys gh of
             Inl e \<Rightarrow> (Inl e, s)
           | Inr ghNames \<Rightarrow>
               (case installGitHubMods env gh ghNames s of
                  (Inl e, s') \<Rightarrow> (Inl e, s')
                | (Inr u, s') \<Rightarrow>
                    (case py_getitem config ''mirrorMods'' of
                       Inl e \<Rightarrow> (Inl e, s')
                     | Inr mi \<Rightarrow>
                         (case py_keys mi of
                            Inl e \<Rightarrow> (Inl e, s')
                          | Inr miNames \<Rightarrow> installMirrorMods env mi miNames s')))))"

definition main :: "env \<Rightarrow> state \<Rightarrow> (exn + unit) \<times> state" where
  "main env s =
     (case loadConfig env s of
        (Inl e, s1) \<Rightarrow> (Inl e, s1)
      | (Inr config, s1) \<Rightarrow>
          (case completeModList config of
             Inl e \<Rightarrow> (Inl e, s1)
           | Inr names \<Rightarrow>
               installAll env config
                 (cleanModsDir
                    (emit (Print (''Detecting the following mods:  '' @ join '', '' names)) s1))))"

text \<open>
  Running the script: an exception that leaves \<^verbatim>\<open>main\<close> ends the interpreter with
  status 1.
\<close>

definition run :: "env \<Rightarrow> state \<Rightarrow> nat \<times> state" where
  "run env s = (case main env s of (Inl e, s') \<Rightarrow> (1, s') | (Inr u, s') \<Rightarrow> (0, s'))"

section \<open>Notions used by the properties\<close>

subsection \<open>Release assets\<close>

text \<open>An asset that has a name which is a string.\<close>

definition namedAsset :: "pyval \<Rightarrow> bool" where
  "namedAsset a = (case py_getitem a ''name'' of Inr (PStr n) \<Rightarrow> True | _ \<Rightarrow> False)"

text \<open>
  An asset of the shape \<^verbatim>\<open>{name: string, browser_download_url: string}\<close>; it may have
  other keys.
\<close>

definition wellFormedAsset :: "pyval \<Rightarrow> bool" where
  "wellFormedAsset a =
     (namedAsset a \<and>
      (case py_getitem a ''browser_download_url'' of Inr (PStr u) \<Rightarrow> True | _ \<Rightarrow> False))"

definition assetName :: "pyval \<Rightarrow> string" where
  "assetName a = (case py_getitem a ''name'' of Inr (PStr n) \<Rightarrow> n | _ \<Rightarrow> [])"

definition assetDownloadUrl :: "pyval \<Rightarrow> pyval" where
  "assetDownloadUrl a = (case py_getitem a ''browser_download_url'' of Inr u \<Rightarrow> u | _ \<Rightarrow> PNone)"

text \<open>
  The naming rule in the specification's words: the name equals \<^verbatim>\<open><modName>.zip\<close>, or
  starts with \<^verbatim>\<open><modName>.\<close> and ends with \<^verbatim>\<open>.zip\<close>.
\<close>

definition nameMatches :: "string \<Rightarrow> pyval \<Rightarrow> bool" where
  "nameMatches modName a =
     (assetName a = modName @ ''.zip'' \<or>
      (prefix (modName @ ''.'') (assetName a) \<and> suffix ''.zip'' (assetName a)))"

subsection \<open>Failures, installs and log lines\<close>

text \<open>An exception of the download that the installer does not catch.\<close>

definition uncaughtDownloadError :: "env \<Rightarrow> pyval \<Rightarrow> bool" where
  "uncaughtDownloadError env zipUrl =
     (case fst (urlretrieve env zipUrl) of
        None \<Rightarrow> False
      | Some (HTTPError code) \<Rightarrow> False
      | Some e \<Rightarrow> True)"

definition downloadFails :: "env \<Rightarrow> pyval \<Rightarrow> bool" where
  "downloadFails env zipUrl = (fst (urlretrieve env zipUrl) \<noteq> None)"

definition extractionFails :: "env \<Rightarrow> pyval \<Rightarrow> bool" where
  "extractionFails env zipUrl = fst (zipExtractAll env (snd (urlretrieve env zipUrl)))"

definition logged :: "string \<Rightarrow> string \<Rightarrow> state \<Rightarrow> bool" where
  "logged modName str s = (Print (logline modName str) \<in> set (events s))"

text \<open>The five messages with which the script reports that a mod was not installed.\<close>

definition failureMessages :: "string list" where
  "failureMessages =
     [''Unable to download mod zip'',
      ''Unable to extract mod zip'',
      ''Repo is no longer hosting releases.'',
      ''Unable to reach GitHub'',
      ''Assets do not contain expected zip file.'']"

definition failureLogged :: "string \<Rightarrow> state \<Rightarrow> bool" where
  "failureLogged modName s = (\<exists>str \<in> set failureMessages. logged modName str s)"

text \<open>The mod's installation directory exists and is not empty.\<close>

definition populated :: "string \<Rightarrow> state \<Rightarrow> bool" where
  "populated modName s =
     (case modsDir s of
        None \<Rightarrow> False
      | Some m \<Rightarrow> (case m modName of None \<Rightarrow> False | Some files \<Rightarrow> files \<noteq> []))"

text \<open>An archive without members was extracted for the mod, and its install reported complete.\<close>

definition emptyArchiveInstalled :: "string \<Rightarrow> state \<Rightarrow> bool" where
  "emptyArchiveInstalled modName s =
     (ZipExtract modName [] \<in> set (events s) \<and> logged modName ''Installation complete.'' s)"

subsection \<open>The manifest\<close>

text \<open>The manifest as \<^verbatim>\<open>main\<close> gets it, when it loads and has both mappings.\<close>

definition loadedManifest :: "env \<Rightarrow> pyval option" where
  "loadedManifest env =
     (case manifest_text env of
        None \<Rightarrow> None
      | Some text \<Rightarrow>
          (case yaml_safe_load env text of
             None \<Rightarrow> None
           | Some config \<Rightarrow>
               (case completeModList config of Inl e \<Rightarrow> None | Inr names \<Rightarrow> Some config)))"

definition manifestModNames :: "env \<Rightarrow> string list" where
  "manifestModNames env =
     (case loadedManifest env of
        None \<Rightarrow> []
      | Some config \<Rightarrow> (case completeModList config of Inl e \<Rightarrow> [] | Inr names \<Rightarrow> names))"

text \<open>The events of the reset of the managed directory, which was \<open>d\<close> before.\<close>

definition resetEvents :: "modsdir \<Rightarrow> (event \<times> modsdir) list" where
  "resetEvents d = (if d \<noteq> None then [(RmTree, d)] else []) @ [(MakeDirs, None)]"

definition initialState :: "modsdir \<Rightarrow> state" where
  "initialState d = \<lparr>trace = [], modsDir = d\<rparr>"

subsection \<open>How a state follows another\<close>

text \<open>
  \<open>s'\<close> continues \<open>s\<close>: its trace is that of \<open>s\<close> and more, and the first thing added
  happened in the managed directory as \<open>s\<close> has it.
\<close>

definition continues :: "state \<Rightarrow> state \<Rightarrow> bool" where
  "continues s s' =
     (\<exists>rest. trace s' = trace s @ rest \<and>
        (if rest = [] then modsDir s' = modsDir s else snd (hd rest) = modsDir s))"

text \<open>Moreover, every directory that was populated still is.\<close>

definition grows :: "state \<Rightarrow> state \<Rightarrow> bool" where
  "grows s s' = (continues s s' \<and> (\<forall>m. populated m s \<longrightarrow> populated m s'))"

text \<open>What the run has to show for a mod.\<close>

definition settled :: "string \<Rightarrow> state \<Rightarrow> bool" where
  "settled modName s =
     (populated modName s \<or> failureLogged modName s \<or> emptyArchiveInstalled modName s)"

subsection \<open>An example world\<close>

definition asset :: "string \<Rightarrow> string \<Rightarrow> pyval" where
  "asset name url = PDict [(''name'', PStr name), (''browser_download_url'', PStr url)]"

definition exampleMirrors :: pyval where
  "exampleMirrors =
     PDict [(''Bar'', PStr ''http://mirror/Bar.zip''), (''Baz'', PStr ''http://mirror/Baz.zip'')]"

definition exampleManifest :: pyval where
  "exampleManifest =
     PDict [(''githubReleaseMods'', PDict [(''Foo'', PStr ''owner/Foo'')]),
            (''mirrorMods'', exampleMirrors)]"

definition exampleAssets :: "pyval list" where
  "exampleAssets =
     [asset ''Foo.zip'' ''http://gh/Foo.zip'',
      asset ''Foo.2.1.0.zip'' ''http://gh/Foo.2.1.0.zip'',
      asset ''Bar.zip'' ''http://gh/Bar.zip'']"

definition exampleReleases :: pyval where
  "exampleReleases = PDict [(''tag_name'', PStr ''v2.1.0''), (''assets'', PList exampleAssets)]"

text \<open>Everything works: every request answers, every archive has one member.\<close>

definition exampleEnv :: env where
  "exampleEnv =
     \<lparr>manifest_text = Some ''manifest'',
      yaml_safe_load = (\<lambda>t. Some exampleManifest),
      py_str = (\<lambda>v. ''?''),
      urlopen = (\<lambda>u. Inr ''releases''),
      json_loads = (\<lambda>b. Some exampleReleases),
      urlretrieve = (\<lambda>u. (None, Some ''zip'')),
      unzip = (\<lambda>b. (False, [(''manifest.json'', ''{}'')]))\<rparr>"

text \<open>The same world, but the download of \<^verbatim>\<open>Bar\<close> from its mirror raises \<open>e\<close>.\<close>

definition barDownloadRaises :: "exn \<Rightarrow> env" where
  "barDownloadRaises e =
     exampleEnv\<lparr>urlretrieve :=
       (\<lambda>u. if u = PStr ''http://mirror/Bar.zip'' then (Some e, None) else (None, Some ''zip''))\<rparr>"

text \<open>A managed directory with content of an earlier run.\<close>

definition exampleState :: state where
  "exampleState = initialState (Some [''Old'' \<mapsto> [(''Old.dll'', ''0'')]])"

section \<open>Basic facts\<close>

lemmas example_defs = exampleEnv_def exampleReleases_def exampleAssets_def asset_def
  exampleManifest_def exampleMirrors_def exampleState_def initialState_def
  barDownloadRaises_def

lemmas run_defs = main_def run_def loadConfig_def completeModList_def installAll_def
  installLatestGitHubRelease_def fetchReleases_def releaseUrl_def format_value_def
  installFromZipUrl_def extractZip_def zipExtractAll_def extractInto_def cleanModsDir_def
  py_getitem_def py_keys_def py_iter_def isExactAssetName_def isAssetNameWithVersion_def
  suffix_to_prefix emit_def log_def logline_def events_def Let_def

lemmas notion_defs = logged_def failureLogged_def failureMessages_def populated_def
  emptyArchiveInstalled_def uncaughtDownloadError_def downloadFails_def extractionFails_def
  loadedManifest_def manifestModNames_def resetEvents_def wellFormedAsset_def namedAsset_def
  nameMatches_def assetName_def assetDownloadUrl_def

lemma events_emit: "events (emit e s) = events s @ [e]"
  by (simp add: events_def emit_def)

lemma modsDir_emit: "modsDir (emit e s) = modsDir s"
  by (simp add: emit_def)

lemma events_log: "events (log m str s) = events s @ [Print (logline m str)]"
  by (simp add: log_def events_emit)

lemma modsDir_log: "modsDir (log m str s) = modsDir s"
  by (simp add: log_def modsDir_emit)

lemma events_modsDir_update: "events (s\<lparr>modsDir := d\<rparr>) = events s"
  by (simp add: events_def)

section \<open>Asset selection\<close>

lemma namedAssetD: "namedAsset a \<Longrightarrow> py_getitem a ''name'' = Inr (PStr (assetName a))"
  by (auto simp: namedAsset_def assetName_def split: sum.splits pyval.splits)

lemma wellFormedAssetD:
  "wellFormedAsset a \<Longrightarrow>
     py_getitem a ''name'' = Inr (PStr (assetName a)) \<and>
     py_getitem a ''browser_download_url'' = Inr (assetDownloadUrl a) \<and>
     assetDownloadUrl a \<noteq> PNone"
  by (auto simp: wellFormedAsset_def namedAsset_def assetName_def assetDownloadUrl_def
      split: sum.splits pyval.splits)

lemma nameMatches_iff:
  "nameMatches modName a =
     (isExactAssetName modName (assetName a) \<or> isAssetNameWithVersion modName (assetName a))"
  by (simp add: nameMatches_def isExactAssetName_def isAssetNameWithVersion_def)

text \<open>
  The loop keeps the URL of the last asset whose name matches, and its starting value
  when none does.
\<close>

lemma scanAssets_wellFormed:
  "\<forall>a\<in>set assets. wellFormedAsset a \<Longrightarrow>
   scanAssets modName assets u =
     Inr (case filter (nameMatches modName) assets of [] \<Rightarrow> u | ms \<Rightarrow> assetDownloadUrl (last ms))"
proof (induction assets arbitrary: u)
  case Nil
  then show ?case by simp
next
  case (Cons a assets)
  from Cons.prems have a: "wellFormedAsset a" and rest: "\<forall>a\<in>set assets. wellFormedAsset a"
    by simp_all
  note IH = Cons.IH[OF rest]
  show ?case
  proof (cases "nameMatches modName a")
    case True
    then show ?thesis
      using wellFormedAssetD[OF a] IH[of "assetDownloadUrl a"]
      by (simp add: nameMatches_iff split: list.splits)
  next
    case False
    then show ?thesis
      using wellFormedAssetD[OF a] IH[of u]
      by (simp add: nameMatches_iff)
  qed
qed

lemma last_filter_wellFormed:
  assumes wf: "\<forall>a\<in>set assets. wellFormedAsset a" and f: "filter P assets = m # ms"
  shows "assetDownloadUrl (last (m # ms)) \<noteq> PNone"
proof -
  have "last (m # ms) \<in> set (filter P assets)"
    unfolding f by (rule last_in_set) simp
  then have "wellFormedAsset (last (m # ms))"
    using wf by simp
  then show ?thesis
    using wellFormedAssetD by blast
qed

text \<open>
  C1. When the release query answers with a list of assets of the expected shape, the
  resolver's scan of that list yields the download URL of the last asset, in listing
  order, whose name equals \<^verbatim>\<open><modName>.zip\<close> or starts with \<^verbatim>\<open><modName>.\<close> and ends with
  \<^verbatim>\<open>.zip\<close>, and yields \<^verbatim>\<open>None\<close> exactly when no asset has such a name; the resolver
  then installs from that URL, or reports that no asset was found.
\<close>

theorem release_asset_selection:
  assumes "fetchReleases env (releaseUrl env modRepo) = Inr releases"
    and "py_getitem releases ''assets'' = Inr (PList assets)"
    and "\<forall>a\<in>set assets. wellFormedAsset a"
  shows "scanAssets modName assets PNone =
           Inr (case filter (nameMatches modName) assets of
                  [] \<Rightarrow> PNone
                | ms \<Rightarrow> assetDownloadUrl (last ms)) \<and>
         installLatestGitHubRelease env modName modRepo s =
           (case filter (nameMatches modName) assets of
              [] \<Rightarrow> (Inr (), log modName ''Assets do not contain expected zip file.''
                               (emit (UrlOpen (releaseUrl env modRepo)) s))
            | ms \<Rightarrow> installFromZipUrl env modName (assetDownloadUrl (last ms))
                      (emit (UrlOpen (releaseUrl env modRepo)) s))"
proof
  show scan: "scanAssets modName assets PNone =
           Inr (case filter (nameMatches modName) assets of
                  [] \<Rightarrow> PNone
                | ms \<Rightarrow> assetDownloadUrl (last ms))"
    by (rule scanAssets_wellFormed[OF assms(3)])
  show "installLatestGitHubRelease env modName modRepo s =
           (case filter (nameMatches modName) assets of
              [] \<Rightarrow> (Inr (), log modName ''Assets do not contain expected zip file.''
                               (emit (UrlOpen (releaseUrl env modRepo)) s))
            | ms \<Rightarrow> installFromZipUrl env modName (assetDownloadUrl (last ms))
                      (emit (UrlOpen (releaseUrl env modRepo)) s))"
  proof (cases "filter (nameMatches modName) assets")
    case Nil
    then show ?thesis
      using assms(1,2) scan
      by (simp add: installLatestGitHubRelease_def py_iter_def)
  next
    case (Cons m ms)
    then show ?thesis
      using assms(1,2) scan last_filter_wellFormed[OF assms(3) Cons]
      by (simp add: installLatestGitHubRelease_def py_iter_def)
  qed
qed

text \<open>
  With the assets \<^verbatim>\<open>Foo.zip\<close>, \<^verbatim>\<open>Foo.2.1.0.zip\<close> and \<^verbatim>\<open>Bar.zip\<close>, the mod \<^verbatim>\<open>Foo\<close> is
  installed from the second.
\<close>

theorem release_asset_selection_witness:
  "installLatestGitHubRelease exampleEnv ''Foo'' (PStr ''owner/Foo'') exampleState =
     installFromZipUrl exampleEnv ''Foo'' (PStr ''http://gh/Foo.2.1.0.zip'')
       (emit (UrlOpen ''https://api.github.com/repos/owner/Foo/releases/latest'') exampleState)"
  using release_asset_selection[of exampleEnv "PStr ''owner/Foo''" exampleReleases
      exampleAssets "''Foo''" exampleState]
  by (simp add: example_defs fetchReleases_def releaseUrl_def format_value_def
      py_getitem_def wellFormedAsset_def namedAsset_def nameMatches_def assetName_def
      assetDownloadUrl_def suffix_to_prefix)

text \<open>
  C9. A name that equals \<^verbatim>\<open><modName>.zip\<close> also starts with \<^verbatim>\<open><modName>.\<close> and ends with
  \<^verbatim>\<open>.zip\<close>; so the disjunction of the two conditions of the loop is the second
  condition alone, for every mod name and asset name.
\<close>

theorem exact_name_is_versioned_name:
  "(isExactAssetName modName name \<longrightarrow> isAssetNameWithVersion modName name) \<and>
   (\<lambda>m n. isExactAssetName m n \<or> isAssetNameWithVersion m n) = isAssetNameWithVersion"
  by (auto simp: isExactAssetName_def isAssetNameWithVersion_def fun_eq_iff suffix_def)

theorem exact_name_is_versioned_name_witness:
  "isExactAssetName ''Foo'' ''Foo.zip'' \<and> isAssetNameWithVersion ''Foo'' ''Foo.zip''"
  using exact_name_is_versioned_name[of "''Foo''" "''Foo.zip''"]
  by (simp add: isExactAssetName_def)

lemma scanAssets_no_match:
  "\<forall>a\<in>set assets. namedAsset a \<and> \<not> nameMatches modName a \<Longrightarrow>
   scanAssets modName assets u = Inr u"
proof (induction assets)
  case Nil
  then show ?case by simp
next
  case (Cons a assets)
  then show ?case
    using namedAssetD[of a] by (simp add: nameMatches_iff)
qed

text \<open>
  C8. When the release query answers with a list of assets that all have a name and none
  of the names matches the naming rule, the resolver returns normally, having done
  nothing but the request and the print of
  \<^verbatim>\<open>Assets do not contain expected zip file.\<close>: no download, no extraction, and the
  managed directory is as it was.
\<close>

theorem no_matching_asset_skips_install:
  assumes "fetchReleases env (releaseUrl env modRepo) = Inr releases"
    and "py_getitem releases ''assets'' = Inr (PList assets)"
    and "\<forall>a\<in>set assets. namedAsset a \<and> \<not> nameMatches modName a"
  shows "let (r, s') = installLatestGitHubRelease env modName modRepo s in
         r = Inr () \<and>
         events s' = events s @
           [UrlOpen (releaseUrl env modRepo),
            Print (logline modName ''Assets do not contain expected zip file.'')] \<and>
         modsDir s' = modsDir s"
  using assms(1,2) scanAssets_no_match[OF assms(3), of PNone]
  by (simp add: installLatestGitHubRelease_def py_iter_def events_log events_emit
      modsDir_log modsDir_emit)

text \<open>None of the example's three assets is an archive of the mod \<^verbatim>\<open>Baz\<close>.\<close>

theorem no_matching_asset_skips_install_witness:
  "fst (installLatestGitHubRelease exampleEnv ''Baz'' (PStr ''owner/Foo'') exampleState) = Inr () \<and>
   events (snd (installLatestGitHubRelease exampleEnv ''Baz'' (PStr ''owner/Foo'') exampleState)) =
     [UrlOpen ''https://api.github.com/repos/owner/Foo/releases/latest'',
      Print ''[Baz]: Assets do not contain expected zip file.''] \<and>
   modsDir (snd (installLatestGitHubRelease exampleEnv ''Baz'' (PStr ''owner/Foo'') exampleState)) =
     modsDir exampleState"
  using no_matching_asset_skips_install[of exampleEnv "PStr ''owner/Foo''" exampleReleases
      exampleAssets "''Baz''" exampleState]
  by (simp add: example_defs fetchReleases_def releaseUrl_def format_value_def
      py_getitem_def namedAsset_def nameMatches_def assetName_def logline_def events_def
      suffix_to_prefix case_prod_beta)

section \<open>The installer\<close>

lemma fst_extractZip: "fst (extractZip env m tmp s) = Inr ()"
  by (simp add: extractZip_def Let_def split: prod.splits)

lemma events_extractZip:
  "events (snd (extractZip env m tmp s)) =
     events s @ [ZipExtract m (snd (zipExtractAll env tmp)),
                 Print (logline m (if fst (zipExtractAll env tmp)
                                   then ''Unable to extract mod zip''
                                   else ''Installation complete.''))]"
  by (simp add: extractZip_def Let_def events_log events_emit events_modsDir_update
      split: prod.splits)

lemma modsDir_extractZip:
  "modsDir (snd (extractZip env m tmp s)) =
     extractInto (modsDir s) m (snd (zipExtractAll env tmp))"
  by (simp add: extractZip_def Let_def modsDir_log modsDir_emit split: prod.splits)

lemma trace_extractZip:
  "\<exists>rest. trace (snd (extractZip env m tmp s)) =
     trace s @ (ZipExtract m (snd (zipExtractAll env tmp)), modsDir s) # rest"
  by (simp add: extractZip_def Let_def log_def emit_def split: prod.splits)

text \<open>The three ways the download can end.\<close>

lemma installFromZipUrl_ok:
  "fst (urlretrieve env u) = None \<Longrightarrow>
   installFromZipUrl env m u s =
     extractZip env m (snd (urlretrieve env u))
       (emit (UrlRetrieve u) (log m ''Downloading mod...'' s))"
  by (cases "urlretrieve env u") (simp add: installFromZipUrl_def Let_def)

lemma installFromZipUrl_http:
  "fst (urlretrieve env u) = Some (HTTPError code) \<Longrightarrow>
   installFromZipUrl env m u s =
     extractZip env m (snd (urlretrieve env u))
       (log m ''Unable to download mod zip''
          (emit (UrlRetrieve u) (log m ''Downloading mod...'' s)))"
  by (cases "urlretrieve env u") (simp add: installFromZipUrl_def Let_def)

lemma installFromZipUrl_raise:
  "fst (urlretrieve env u) = Some e \<Longrightarrow> \<forall>code. e \<noteq> HTTPError code \<Longrightarrow>
   installFromZipUrl env m u s =
     (Inl e, emit (UrlRetrieve u) (log m ''Downloading mod...'' s))"
  by (cases "urlretrieve env u"; cases e) (simp_all add: installFromZipUrl_def Let_def)

lemma download_cases:
  obtains (ok) "fst (urlretrieve env u) = None" "\<not> uncaughtDownloadError env u"
      "\<not> downloadFails env u"
  | (http) code where "fst (urlretrieve env u) = Some (HTTPError code)"
      "\<not> uncaughtDownloadError env u" "downloadFails env u"
  | (raise) e where "fst (urlretrieve env u) = Some e" "\<forall>code. e \<noteq> HTTPError code"
      "uncaughtDownloadError env u"
proof (cases "fst (urlretrieve env u)")
  case None
  then show ?thesis using ok by (simp add: uncaughtDownloadError_def downloadFails_def)
next
  case (Some e)
  then show ?thesis using http raise
    by (cases e) (simp_all add: uncaughtDownloadError_def downloadFails_def)
qed

text \<open>
  C4. When the download raises an HTTP error, the installer prints
  \<^verbatim>\<open>Unable to download mod zip\<close> and goes on to the extraction of the temporary file,
  whatever is there: the next event is the extraction, followed by the report of its
  outcome. The installer returns only after that.
\<close>

theorem failed_download_still_extracts:
  assumes "urlretrieve env zipUrl = (Some (HTTPError code), tmp)"
  shows "fst (installFromZipUrl env modName zipUrl s) = Inr () \<and>
         events (snd (installFromZipUrl env modName zipUrl s)) =
           events s @
             [Print (logline modName ''Downloading mod...''),
              UrlRetrieve zipUrl,
              Print (logline modName ''Unable to download mod zip''),
              ZipExtract modName (snd (zipExtractAll env tmp)),
              Print (logline modName (if fst (zipExtractAll env tmp)
                                      then ''Unable to extract mod zip''
                                      else ''Installation complete.''))]"
  using assms
  by (simp add: installFromZipUrl_def Let_def fst_extractZip events_extractZip events_log
      events_emit)

text \<open>The mirror answers 503 and no file is written: the extraction is tried and fails.\<close>

theorem failed_download_still_extracts_witness:
  "events (snd (installFromZipUrl
       (exampleEnv\<lparr>urlretrieve := \<lambda>u. (Some (HTTPError 503), None)\<rparr>)
       ''Bar'' (PStr ''http://mirror/Bar.zip'') exampleState)) =
     [Print ''[Bar]: Downloading mod...'',
      UrlRetrieve (PStr ''http://mirror/Bar.zip''),
      Print ''[Bar]: Unable to download mod zip'',
      ZipExtract ''Bar'' [],
      Print ''[Bar]: Unable to extract mod zip'']"
  using failed_download_still_extracts[of
      "exampleEnv\<lparr>urlretrieve := \<lambda>u. (Some (HTTPError 503), None)\<rparr>"
      "PStr ''http://mirror/Bar.zip''" 503 None "''Bar''" exampleState]
  by (simp add: example_defs zipExtractAll_def logline_def events_def)

lemma fst_installFromZipUrl:
  "fst (installFromZipUrl env m u s) =
     (case fst (urlretrieve env u) of
        None \<Rightarrow> Inr ()
      | Some (HTTPError code) \<Rightarrow> Inr ()
      | Some e \<Rightarrow> Inl e)"
proof (cases rule: download_cases[of env u])
  case ok
  then show ?thesis by (simp add: installFromZipUrl_ok fst_extractZip)
next
  case (http code)
  then show ?thesis by (simp add: installFromZipUrl_http fst_extractZip)
next
  case (raise e)
  then show ?thesis by (cases e) (simp_all add: installFromZipUrl_raise)
qed

lemma modsDir_installFromZipUrl:
  "modsDir (snd (installFromZipUrl env m u s)) =
     (if uncaughtDownloadError env u then modsDir s
      else extractInto (modsDir s) m (snd (zipExtractAll env (snd (urlretrieve env u)))))"
proof (cases rule: download_cases[of env u])
  case ok
  then show ?thesis
    by (simp add: installFromZipUrl_ok modsDir_extractZip modsDir_log modsDir_emit)
next
  case (http code)
  then show ?thesis
    by (simp add: installFromZipUrl_http modsDir_extractZip modsDir_log modsDir_emit)
next
  case (raise e)
  then show ?thesis
    by (simp add: installFromZipUrl_raise modsDir_log modsDir_emit)
qed

lemma events_installFromZipUrl:
  assumes "\<not> uncaughtDownloadError env u"
  shows "events (snd (installFromZipUrl env m u s)) =
     events s @
       [Print (logline m ''Downloading mod...''), UrlRetrieve u] @
       (if downloadFails env u then [Print (logline m ''Unable to download mod zip'')] else []) @
       [ZipExtract m (snd (zipExtractAll env (snd (urlretrieve env u)))),
        Print (logline m (if extractionFails env u then ''Unable to extract mod zip''
                          else ''Installation complete.''))]"
proof (cases rule: download_cases[of env u])
  case ok
  then show ?thesis
    by (simp add: installFromZipUrl_ok events_extractZip events_log events_emit
        extractionFails_def)
next
  case (http code)
  then show ?thesis
    by (simp add: installFromZipUrl_http events_extractZip events_log events_emit
        extractionFails_def)
next
  case (raise e)
  then show ?thesis using assms by simp
qed

lemma trace_installFromZipUrl:
  "\<exists>rest. trace (snd (installFromZipUrl env m u s)) =
     trace s @ (Print (logline m ''Downloading mod...''), modsDir s) # rest"
proof (cases rule: download_cases[of env u])
  case ok
  then show ?thesis
    using trace_extractZip[of env m "snd (urlretrieve env u)"
        "emit (UrlRetrieve u) (log m ''Downloading mod...'' s)"]
    by (auto simp: installFromZipUrl_ok log_def emit_def)
next
  case (http code)
  then show ?thesis
    using trace_extractZip[of env m "snd (urlretrieve env u)"
        "log m ''Unable to download mod zip''
           (emit (UrlRetrieve u) (log m ''Downloading mod...'' s))"]
    by (auto simp: installFromZipUrl_http log_def emit_def)
next
  case (raise e)
  then show ?thesis
    by (simp add: installFromZipUrl_raise log_def emit_def)
qed

section \<open>States that follow one another\<close>

lemma continues_refl: "continues s s"
  by (simp add: continues_def)

lemma continues_trans: "continues s s' \<Longrightarrow> continues s' s'' \<Longrightarrow> continues s s''"
  unfolding continues_def
  by (elim exE conjE, rename_tac r1 r2, rule_tac x = "r1 @ r2" in exI) (auto split: if_splits)

lemma continues_emit: "continues s (emit e s)"
  by (simp add: continues_def emit_def)

lemma continues_events: "continues s s' \<Longrightarrow> set (events s) \<subseteq> set (events s')"
  by (auto simp: continues_def events_def)

lemma continues_ConsI:
  "trace s' = trace s @ (e, modsDir s) # rest \<Longrightarrow> continues s s'"
  unfolding continues_def by (rule exI[of _ "(e, modsDir s) # rest"]) simp

lemma continues_installFromZipUrl: "continues s (snd (installFromZipUrl env m u s))"
  using trace_installFromZipUrl[of env m u s] by (blast intro: continues_ConsI)

lemma logged_continues: "continues s s' \<Longrightarrow> logged m str s \<Longrightarrow> logged m str s'"
  using continues_events[of s s'] by (auto simp: logged_def)

lemma logged_downloading:
  "logged m ''Downloading mod...'' (snd (installFromZipUrl env m u s))"
  using trace_installFromZipUrl[of env m u s] by (auto simp: logged_def events_def)

lemma grows_refl: "grows s s"
  by (simp add: grows_def continues_refl)

lemma grows_trans: "grows s s' \<Longrightarrow> grows s' s'' \<Longrightarrow> grows s s''"
  unfolding grows_def using continues_trans by blast


lemma populated_emit: "populated m (emit e s) = populated m s"
  by (simp add: populated_def emit_def)

lemma grows_emit: "grows s (emit e s)"
  by (simp add: grows_def continues_emit populated_emit)

lemma grows_log: "grows s (log m str s)"
  by (simp add: log_def grows_emit)

lemma populated_extractInto_mono:
  "populated m s \<Longrightarrow> modsDir s' = extractInto (modsDir s) k w \<Longrightarrow> populated m s'"
  by (auto simp: populated_def extractInto_def Let_def split: option.splits if_splits)

lemma populated_extractInto_new:
  "w \<noteq> [] \<Longrightarrow> modsDir s' = extractInto (modsDir s) m w \<Longrightarrow> populated m s'"
  by (auto simp: populated_def extractInto_def Let_def split: option.splits)

lemma grows_installFromZipUrl: "grows s (snd (installFromZipUrl env m u s))"
  unfolding grows_def
proof (intro conjI allI impI)
  show "continues s (snd (installFromZipUrl env m u s))"
    by (rule continues_installFromZipUrl)
next
  fix k assume p: "populated k s"
  show "populated k (snd (installFromZipUrl env m u s))"
  proof (cases "uncaughtDownloadError env u")
    case True
    then have "modsDir (snd (installFromZipUrl env m u s)) = modsDir s"
      by (simp add: modsDir_installFromZipUrl)
    then show ?thesis using p by (simp add: populated_def)
  next
    case False
    then show ?thesis
      using populated_extractInto_mono[OF p] modsDir_installFromZipUrl[of env m u s] by simp
  qed
qed

lemma settled_grows: "grows s s' \<Longrightarrow> settled m s \<Longrightarrow> settled m s'"
  using continues_events[of s s']
  by (auto simp: grows_def settled_def failureLogged_def emptyArchiveInstalled_def logged_def)

section \<open>Failures of the installer\<close>

lemma py_keys_getitem:
  "py_keys mods = Inr names \<Longrightarrow> k \<in> set names \<Longrightarrow> \<exists>v. py_getitem mods k = Inr v"
  by (cases mods) (auto simp: py_keys_def py_getitem_def map_of_eq_None_iff split: option.splits)

lemma py_getitem_keys:
  "py_keys mods = Inr names \<Longrightarrow> py_getitem mods k = Inr v \<Longrightarrow> k \<in> set names"
  by (cases mods) (force simp: py_keys_def py_getitem_def split: option.splits dest: map_of_SomeD)+

lemma installMirrorMods_all_processed:
  assumes "\<forall>k\<in>set names. \<exists>url. py_getitem mods k = Inr url \<and> \<not> uncaughtDownloadError env url"
  shows "fst (installMirrorMods env mods names s) = Inr () \<and>
         (\<forall>k\<in>set names. logged k ''Downloading mod...'' (snd (installMirrorMods env mods names s)))"
  using assms
proof (induction names arbitrary: s)
  case Nil
  then show ?case by simp
next
  case (Cons n names)
  from Cons.prems obtain url where url: "py_getitem mods n = Inr url"
    and nu: "\<not> uncaughtDownloadError env url" by auto
  obtain r s' where c: "installFromZipUrl env n url s = (r, s')"
    by (cases "installFromZipUrl env n url s")
  have "fst (installFromZipUrl env n url s) = Inr ()"
    using nu by (cases rule: download_cases[of env url]) (simp_all add: fst_installFromZipUrl)
  then have r: "r = Inr ()" using c by simp
  have unfold: "installMirrorMods env mods (n # names) s = installMirrorMods env mods names s'"
    using url c r by simp
  have IH: "fst (installMirrorMods env mods names s') = Inr () \<and>
         (\<forall>k\<in>set names. logged k ''Downloading mod...'' (snd (installMirrorMods env mods names s')))"
    using Cons.IH[of s'] Cons.prems by simp
  have step: "continues s' (snd (installMirrorMods env mods names s'))" for names
  proof (induction names arbitrary: s')
    case Nil
    show ?case by (simp add: continues_refl)
  next
    case (Cons k ks)
    show ?case
    proof (cases "py_getitem mods k")
      case (Inl e)
      then show ?thesis by (simp add: continues_refl)
    next
      case (Inr v)
      obtain r1 s1 where c1: "installFromZipUrl env k v s' = (r1, s1)"
        by (cases "installFromZipUrl env k v s'")
      have "continues s' s1"
        using continues_installFromZipUrl[of s' env k v] c1 by simp
      then show ?thesis
        using Inr c1 continues_trans[OF _ Cons.IH[of s1]]
        by (cases r1) simp_all
    qed
  qed
  have "logged n ''Downloading mod...'' s'"
    using logged_downloading[of n env url s] c by simp
  then have "logged n ''Downloading mod...'' (snd (installMirrorMods env mods names s'))"
    using logged_continues[OF step] by blast
  then show ?case using IH unfold by simp
qed

text \<open>
  C2, as the code has it. The installer catches an \<open>HTTPError\<close> of the download and
  everything the extraction raises: it then prints the failure and returns normally.
  Any other exception of the download leaves the installer. So over a mapping of mirror
  mods whose downloads raise nothing but HTTP errors, the loop of \<^verbatim>\<open>main\<close> returns
  normally and reaches every entry.
\<close>

theorem http_download_failures_swallowed:
  "(let (r, s') = installFromZipUrl env modName zipUrl s in
      case fst (urlretrieve env zipUrl) of
        None \<Rightarrow>
          r = Inr () \<and>
          (extractionFails env zipUrl \<longrightarrow> logged modName ''Unable to extract mod zip'' s')
      | Some (HTTPError code) \<Rightarrow>
          r = Inr () \<and> logged modName ''Unable to download mod zip'' s' \<and>
          (extractionFails env zipUrl \<longrightarrow> logged modName ''Unable to extract mod zip'' s')
      | Some e \<Rightarrow> r = Inl e) \<and>
   (py_keys mods = Inr names \<and>
    (\<forall>k\<in>set names. \<forall>url. py_getitem mods k = Inr url \<longrightarrow> \<not> uncaughtDownloadError env url) \<longrightarrow>
      fst (installMirrorMods env mods names s) = Inr () \<and>
      (\<forall>k\<in>set names. logged k ''Downloading mod...'' (snd (installMirrorMods env mods names s))))"
proof (rule conjI)
  show "let (r, s') = installFromZipUrl env modName zipUrl s in
      case fst (urlretrieve env zipUrl) of
        None \<Rightarrow>
          r = Inr () \<and>
          (extractionFails env zipUrl \<longrightarrow> logged modName ''Unable to extract mod zip'' s')
      | Some (HTTPError code) \<Rightarrow>
          r = Inr () \<and> logged modName ''Unable to download mod zip'' s' \<and>
          (extractionFails env zipUrl \<longrightarrow> logged modName ''Unable to extract mod zip'' s')
      | Some e \<Rightarrow> r = Inl e"
  proof -
    obtain r s' where c: "installFromZipUrl env modName zipUrl s = (r, s')"
      by (cases "installFromZipUrl env modName zipUrl s")
    have f: "r = (case fst (urlretrieve env zipUrl) of
        None \<Rightarrow> Inr () | Some (HTTPError code) \<Rightarrow> Inr () | Some e \<Rightarrow> Inl e)"
      using fst_installFromZipUrl[of env modName zipUrl s] c by simp
    show ?thesis
    proof (cases rule: download_cases[of env zipUrl])
      case ok
      then show ?thesis
        using events_installFromZipUrl[OF ok(2), of modName s] f c
        by (simp add: logged_def)
    next
      case (http code)
      then show ?thesis
        using events_installFromZipUrl[OF http(2), of modName s] f c
        by (simp add: logged_def)
    next
      case (raise e)
      then show ?thesis
        using f c by (cases e) simp_all
    qed
  qed
next
  show "py_keys mods = Inr names \<and>
    (\<forall>k\<in>set names. \<forall>url. py_getitem mods k = Inr url \<longrightarrow> \<not> uncaughtDownloadError env url) \<longrightarrow>
      fst (installMirrorMods env mods names s) = Inr () \<and>
      (\<forall>k\<in>set names. logged k ''Downloading mod...'' (snd (installMirrorMods env mods names s)))"
  proof (rule impI)
    assume a: "py_keys mods = Inr names \<and>
      (\<forall>k\<in>set names. \<forall>url. py_getitem mods k = Inr url \<longrightarrow> \<not> uncaughtDownloadError env url)"
    then have "\<forall>k\<in>set names. \<exists>url. py_getitem mods k = Inr url \<and> \<not> uncaughtDownloadError env url"
      using py_keys_getitem[of mods names] by blast
    then show "fst (installMirrorMods env mods names s) = Inr () \<and>
        (\<forall>k\<in>set names. logged k ''Downloading mod...'' (snd (installMirrorMods env mods names s)))"
      by (rule installMirrorMods_all_processed)
  qed
qed

text \<open>
  The mirror of \<^verbatim>\<open>Bar\<close> answers 503: both failures of \<^verbatim>\<open>Bar\<close> are printed, and \<^verbatim>\<open>Baz\<close>,
  the next entry, is processed.
\<close>

theorem http_download_failures_swallowed_witness:
  "fst (installFromZipUrl (barDownloadRaises (HTTPError 503)) ''Bar''
          (PStr ''http://mirror/Bar.zip'') exampleState) = Inr () \<and>
   logged ''Bar'' ''Unable to download mod zip''
     (snd (installFromZipUrl (barDownloadRaises (HTTPError 503)) ''Bar''
             (PStr ''http://mirror/Bar.zip'') exampleState)) \<and>
   logged ''Bar'' ''Unable to extract mod zip''
     (snd (installFromZipUrl (barDownloadRaises (HTTPError 503)) ''Bar''
             (PStr ''http://mirror/Bar.zip'') exampleState)) \<and>
   fst (installMirrorMods (barDownloadRaises (HTTPError 503)) exampleMirrors
          [''Bar'', ''Baz''] exampleState) = Inr () \<and>
   logged ''Baz'' ''Downloading mod...''
     (snd (installMirrorMods (barDownloadRaises (HTTPError 503)) exampleMirrors
             [''Bar'', ''Baz''] exampleState))"
  using http_download_failures_swallowed[of "barDownloadRaises (HTTPError 503)" "''Bar''"
      "PStr ''http://mirror/Bar.zip''" exampleState exampleMirrors "[''Bar'', ''Baz'']"]
  by (simp add: barDownloadRaises_def exampleMirrors_def py_keys_def py_getitem_def
      uncaughtDownloadError_def extractionFails_def zipExtractAll_def case_prod_beta
      del: installMirrorMods.simps)

text \<open>
  The claim fails where the download raises something else than an \<open>HTTPError\<close>: the
  exception leaves the installer, nothing is printed about the failure, the run ends
  with status 1 and the next entry, \<^verbatim>\<open>Baz\<close>, is never processed.
\<close>

theorem transport_error_leaves_installer:
  "fst (installFromZipUrl (barDownloadRaises URLError) ''Bar''
          (PStr ''http://mirror/Bar.zip'') exampleState) = Inl URLError \<and>
   \<not> failureLogged ''Bar''
       (snd (installFromZipUrl (barDownloadRaises URLError) ''Bar''
               (PStr ''http://mirror/Bar.zip'') exampleState)) \<and>
   fst (run (barDownloadRaises URLError) exampleState) = 1 \<and>
   \<not> logged ''Baz'' ''Downloading mod...'' (snd (run (barDownloadRaises URLError) exampleState))"
  by (simp add: run_defs notion_defs example_defs)

section \<open>The resolver\<close>

lemma fetchReleases_error:
  "urlopen env url = Inl e \<Longrightarrow> fetchReleases env url = Inl e"
  by (simp add: fetchReleases_def)

text \<open>
  C3, as the code has it. When the request for the latest release raises an \<open>HTTPError\<close>,
  the resolver prints \<^verbatim>\<open>Repo is no longer hosting releases.\<close> for status 404 and
  \<^verbatim>\<open>Unable to reach GitHub\<close> for any other status, and returns normally. Any other
  exception of the request leaves the resolver and nothing is printed. In every case the
  request is made once, nothing is downloaded or extracted, and the managed directory is
  as it was.
\<close>

theorem release_query_errors:
  assumes "urlopen env (releaseUrl env modRepo) = Inl e"
  shows "let (r, s') = installLatestGitHubRelease env modName modRepo s in
         modsDir s' = modsDir s \<and>
         (case e of
            HTTPError code \<Rightarrow>
              r = Inr () \<and>
              events s' = events s @
                [UrlOpen (releaseUrl env modRepo),
                 Print (logline modName
                          (if code = 404 then ''Repo is no longer hosting releases.''
                           else ''Unable to reach GitHub''))]
          | _ \<Rightarrow> r = Inl e \<and> events s' = events s @ [UrlOpen (releaseUrl env modRepo)])"
  using fetchReleases_error[OF assms]
  by (cases e)
    (simp_all add: installLatestGitHubRelease_def Let_def events_log events_emit modsDir_log
      modsDir_emit)

text \<open>The answers 404, 503 and a connection that cannot be made.\<close>

theorem release_query_errors_witness:
  "(let (r, s') = installLatestGitHubRelease (exampleEnv\<lparr>urlopen := \<lambda>u. Inl (HTTPError 404)\<rparr>)
                    ''Foo'' (PStr ''owner/Foo'') exampleState in
      r = Inr () \<and> modsDir s' = modsDir exampleState \<and>
      events s' = [UrlOpen ''https://api.github.com/repos/owner/Foo/releases/latest'',
                   Print ''[Foo]: Repo is no longer hosting releases.'']) \<and>
   (let (r, s') = installLatestGitHubRelease (exampleEnv\<lparr>urlopen := \<lambda>u. Inl (HTTPError 503)\<rparr>)
                    ''Foo'' (PStr ''owner/Foo'') exampleState in
      r = Inr () \<and> modsDir s' = modsDir exampleState \<and>
      events s' = [UrlOpen ''https://api.github.com/repos/owner/Foo/releases/latest'',
                   Print ''[Foo]: Unable to reach GitHub'']) \<and>
   (let (r, s') = installLatestGitHubRelease (exampleEnv\<lparr>urlopen := \<lambda>u. Inl URLError\<rparr>)
                    ''Foo'' (PStr ''owner/Foo'') exampleState in
      r = Inl URLError \<and> modsDir s' = modsDir exampleState \<and>
      events s' = [UrlOpen ''https://api.github.com/repos/owner/Foo/releases/latest''])"
  using
    release_query_errors[of "exampleEnv\<lparr>urlopen := \<lambda>u. Inl (HTTPError 404)\<rparr>"
      "PStr ''owner/Foo''" "HTTPError 404" "''Foo''" exampleState]
    release_query_errors[of "exampleEnv\<lparr>urlopen := \<lambda>u. Inl (HTTPError 503)\<rparr>"
      "PStr ''owner/Foo''" "HTTPError 503" "''Foo''" exampleState]
    release_query_errors[of "exampleEnv\<lparr>urlopen := \<lambda>u. Inl URLError\<rparr>"
      "PStr ''owner/Foo''" URLError "''Foo''" exampleState]
  by (simp add: example_defs releaseUrl_def format_value_def logline_def events_def
      split: prod.splits)

text \<open>
  The claim fails for a transport error: the exception leaves the resolver, and
  \<^verbatim>\<open>Unable to reach GitHub\<close> is not printed.
\<close>

theorem release_query_transport_error_propagates:
  "fst (installLatestGitHubRelease (exampleEnv\<lparr>urlopen := \<lambda>u. Inl URLError\<rparr>)
          ''Foo'' (PStr ''owner/Foo'') exampleState) = Inl URLError \<and>
   \<not> logged ''Foo'' ''Unable to reach GitHub''
       (snd (installLatestGitHubRelease (exampleEnv\<lparr>urlopen := \<lambda>u. Inl URLError\<rparr>)
               ''Foo'' (PStr ''owner/Foo'') exampleState))"
  by (simp add: installLatestGitHubRelease_def fetchReleases_def example_defs logged_def
      events_def emit_def)

text \<open>The ways the resolver can end.\<close>

lemma resolver_disj:
  "installLatestGitHubRelease env m r s =
     (Inr (), log m ''Repo is no longer hosting releases.'' (emit (UrlOpen (releaseUrl env r)) s)) \<or>
   installLatestGitHubRelease env m r s =
     (Inr (), log m ''Unable to reach GitHub'' (emit (UrlOpen (releaseUrl env r)) s)) \<or>
   installLatestGitHubRelease env m r s =
     (Inr (), log m ''Assets do not contain expected zip file.''
                (emit (UrlOpen (releaseUrl env r)) s)) \<or>
   (\<exists>e. installLatestGitHubRelease env m r s = (Inl e, emit (UrlOpen (releaseUrl env r)) s)) \<or>
   (\<exists>url. installLatestGitHubRelease env m r s =
      installFromZipUrl env m url (emit (UrlOpen (releaseUrl env r)) s))"
proof (cases "fetchReleases env (releaseUrl env r)")
  case (Inl e)
  then show ?thesis
    by (cases e) (simp_all add: installLatestGitHubRelease_def Let_def)
next
  case (Inr releases)
  then show ?thesis
    by (auto simp: installLatestGitHubRelease_def Let_def split: sum.splits)
qed

lemma resolver_cases:
  obtains (skip) str where
      "installLatestGitHubRelease env m r s =
         (Inr (), log m str (emit (UrlOpen (releaseUrl env r)) s))"
      "str \<in> set failureMessages"
  | (raise) e where
      "installLatestGitHubRelease env m r s = (Inl e, emit (UrlOpen (releaseUrl env r)) s)"
  | (install) url where
      "installLatestGitHubRelease env m r s =
         installFromZipUrl env m url (emit (UrlOpen (releaseUrl env r)) s)"
proof -
  have "''Repo is no longer hosting releases.'' \<in> set failureMessages"
    "''Unable to reach GitHub'' \<in> set failureMessages"
    "''Assets do not contain expected zip file.'' \<in> set failureMessages"
    by (simp_all add: failureMessages_def)
  then show ?thesis
    using resolver_disj[of env m r s] skip raise install by blast
qed

lemma grows_installLatestGitHubRelease:
  "grows s (snd (installLatestGitHubRelease env m r s))"
proof (cases rule: resolver_cases[of env m r s])
  case (skip str)
  then show ?thesis
    using grows_trans[OF grows_emit grows_log] by simp
next
  case (raise e)
  then show ?thesis by (simp add: grows_emit)
next
  case (install url)
  then show ?thesis
    using grows_trans[OF grows_emit grows_installFromZipUrl] by simp
qed

section \<open>What a run leaves for every mod\<close>

lemma settled_installFromZipUrl:
  assumes "fst (installFromZipUrl env m u s) = Inr ()"
  shows "settled m (snd (installFromZipUrl env m u s))"
proof -
  let ?s' = "snd (installFromZipUrl env m u s)"
  let ?w = "snd (zipExtractAll env (snd (urlretrieve env u)))"
  have nu: "\<not> uncaughtDownloadError env u"
    using assms by (cases rule: download_cases[of env u]) (simp_all add: installFromZipUrl_raise)
  note ev = events_installFromZipUrl[OF nu, of m s]
  show ?thesis
  proof (cases "extractionFails env u")
    case True
    then have "logged m ''Unable to extract mod zip'' ?s'"
      using ev by (simp add: logged_def)
    then show ?thesis by (auto simp: settled_def failureLogged_def failureMessages_def)
  next
    case False
    show ?thesis
    proof (cases "?w = []")
      case True
      then have "emptyArchiveInstalled m ?s'"
        using ev False by (simp add: emptyArchiveInstalled_def logged_def)
      then show ?thesis by (simp add: settled_def)
    next
      case False
      then have "populated m ?s'"
        using populated_extractInto_new[of ?w ?s' s m] modsDir_installFromZipUrl[of env m u s] nu
        by simp
      then show ?thesis by (simp add: settled_def)
    qed
  qed
qed

lemma settled_installLatestGitHubRelease:
  assumes "fst (installLatestGitHubRelease env m r s) = Inr ()"
  shows "settled m (snd (installLatestGitHubRelease env m r s))"
proof (cases rule: resolver_cases[of env m r s])
  case (skip str)
  then have "logged m str (snd (installLatestGitHubRelease env m r s))"
    by (simp add: logged_def events_log)
  then show ?thesis
    using skip(2) by (auto simp: settled_def failureLogged_def)
next
  case (raise e)
  then show ?thesis using assms by simp
next
  case (install url)
  then show ?thesis
    using assms settled_installFromZipUrl[of env m url "emit (UrlOpen (releaseUrl env r)) s"]
    by simp
qed

lemma grows_installGitHubMods:
  "grows s (snd (installGitHubMods env mods names s))"
proof (induction names arbitrary: s)
  case Nil
  show ?case by (simp add: grows_refl)
next
  case (Cons k names)
  show ?case
  proof (cases "py_getitem mods k")
    case (Inl e)
    then show ?thesis by (simp add: grows_refl)
  next
    case (Inr repo)
    obtain r s' where c: "installLatestGitHubRelease env k repo s = (r, s')"
      by (cases "installLatestGitHubRelease env k repo s")
    have step: "grows s s'"
      using grows_installLatestGitHubRelease[of s env k repo] c by simp
    show ?thesis
      using Inr c step grows_trans[OF step Cons.IH[of s']]
      by (cases r) simp_all
  qed
qed

lemma grows_installMirrorMods:
  "grows s (snd (installMirrorMods env mods names s))"
proof (induction names arbitrary: s)
  case Nil
  show ?case by (simp add: grows_refl)
next
  case (Cons k names)
  show ?case
  proof (cases "py_getitem mods k")
    case (Inl e)
    then show ?thesis by (simp add: grows_refl)
  next
    case (Inr url)
    obtain r s' where c: "installFromZipUrl env k url s = (r, s')"
      by (cases "installFromZipUrl env k url s")
    have step: "grows s s'"
      using grows_installFromZipUrl[of s env k url] c by simp
    show ?thesis
      using Inr c step grows_trans[OF step Cons.IH[of s']]
      by (cases r) simp_all
  qed
qed

lemma settled_installGitHubMods:
  "fst (installGitHubMods env mods names s) = Inr () \<Longrightarrow> k \<in> set names \<Longrightarrow>
   settled k (snd (installGitHubMods env mods names s))"
proof (induction names arbitrary: s)
  case Nil
  then show ?case by simp
next
  case (Cons n names)
  from Cons.prems(1) obtain repo where repo: "py_getitem mods n = Inr repo"
    by (cases "py_getitem mods n") simp_all
  obtain r s' where c: "installLatestGitHubRelease env n repo s = (r, s')"
    by (cases "installLatestGitHubRelease env n repo s")
  from Cons.prems(1) repo c have r: "r = Inr ()"
    by (cases r) simp_all
  have rest: "fst (installGitHubMods env mods names s') = Inr ()"
    using Cons.prems(1) repo c r by simp
  have unfold: "installGitHubMods env mods (n # names) s = installGitHubMods env mods names s'"
    using repo c r by simp
  show ?case
  proof (cases "k \<in> set names")
    case True
    then show ?thesis using Cons.IH[OF rest] unfold by simp
  next
    case False
    then have "k = n" using Cons.prems(2) by simp
    then have "settled k s'"
      using settled_installLatestGitHubRelease[of env n repo s] c r by simp
    then show ?thesis
      using settled_grows[OF grows_installGitHubMods[of s' env mods names]] unfold by simp
  qed
qed

lemma settled_installMirrorMods:
  "fst (installMirrorMods env mods names s) = Inr () \<Longrightarrow> k \<in> set names \<Longrightarrow>
   settled k (snd (installMirrorMods env mods names s))"
proof (induction names arbitrary: s)
  case Nil
  then show ?case by simp
next
  case (Cons n names)
  from Cons.prems(1) obtain url where url: "py_getitem mods n = Inr url"
    by (cases "py_getitem mods n") simp_all
  obtain r s' where c: "installFromZipUrl env n url s = (r, s')"
    by (cases "installFromZipUrl env n url s")
  from Cons.prems(1) url c have r: "r = Inr ()"
    by (cases r) simp_all
  have rest: "fst (installMirrorMods env mods names s') = Inr ()"
    using Cons.prems(1) url c r by simp
  have unfold: "installMirrorMods env mods (n # names) s = installMirrorMods env mods names s'"
    using url c r by simp
  show ?case
  proof (cases "k \<in> set names")
    case True
    then show ?thesis using Cons.IH[OF rest] unfold by simp
  next
    case False
    then have "k = n" using Cons.prems(2) by simp
    then have "settled k s'"
      using settled_installFromZipUrl[of env n url s] c r by simp
    then show ?thesis
      using settled_grows[OF grows_installMirrorMods[of s' env mods names]] unfold by simp
  qed
qed

text \<open>The loops of \<^verbatim>\<open>main\<close>, once line 93 has passed.\<close>

lemma completeModList_Inr:
  assumes "completeModList config = Inr names"
  shows "\<exists>gh ghNames mi miNames.
           py_getitem config ''githubReleaseMods'' = Inr gh \<and> py_keys gh = Inr ghNames \<and>
           py_getitem config ''mirrorMods'' = Inr mi \<and> py_keys mi = Inr miNames \<and>
           names = ghNames @ miNames"
  using assms by (auto simp: completeModList_def split: sum.splits)

lemma installAll_unfold:
  assumes "completeModList config = Inr names"
  obtains gh ghNames mi miNames where
    "py_getitem config ''githubReleaseMods'' = Inr gh" "py_keys gh = Inr ghNames"
    "py_getitem config ''mirrorMods'' = Inr mi" "py_keys mi = Inr miNames"
    "names = ghNames @ miNames"
    "installAll env config s =
       (case installGitHubMods env gh ghNames s of
          (Inl e, s') \<Rightarrow> (Inl e, s')
        | (Inr u, s') \<Rightarrow> installMirrorMods env mi miNames s')"
proof -
  from completeModList_Inr[OF assms] obtain gh ghNames mi miNames where
    f: "py_getitem config ''githubReleaseMods'' = Inr gh" "py_keys gh = Inr ghNames"
      "py_getitem config ''mirrorMods'' = Inr mi" "py_keys mi = Inr miNames"
      "names = ghNames @ miNames"
    by blast
  have "installAll env config s =
       (case installGitHubMods env gh ghNames s of
          (Inl e, s') \<Rightarrow> (Inl e, s')
        | (Inr u, s') \<Rightarrow> installMirrorMods env mi miNames s')"
    using f by (simp add: installAll_def split: prod.splits sum.splits)
  then show ?thesis using f that by blast
qed


lemma settled_installAll:
  assumes "completeModList config = Inr names"
    and "fst (installAll env config s) = Inr ()"
    and "k \<in> set names"
  shows "settled k (snd (installAll env config s))"
proof -
  from assms(1) obtain gh ghNames mi miNames where
    names: "names = ghNames @ miNames" and
    u: "installAll env config s =
       (case installGitHubMods env gh ghNames s of
          (Inl e, s') \<Rightarrow> (Inl e, s')
        | (Inr u, s') \<Rightarrow> installMirrorMods env mi miNames s')"
    by (rule installAll_unfold)
  obtain r s1 where c: "installGitHubMods env gh ghNames s = (r, s1)"
    by (cases "installGitHubMods env gh ghNames s")
  from assms(2) u c have r: "r = Inr ()"
    by (cases r) simp_all
  have all: "installAll env config s = installMirrorMods env mi miNames s1"
    using u c r by simp
  have mi: "fst (installMirrorMods env mi miNames s1) = Inr ()"
    using assms(2) all by simp
  show ?thesis
  proof (cases "k \<in> set miNames")
    case True
    then show ?thesis using settled_installMirrorMods[OF mi] all by simp
  next
    case False
    then have "k \<in> set ghNames" using assms(3) names by simp
    then have "settled k s1"
      using settled_installGitHubMods[of env gh ghNames s k] c r by simp
    then show ?thesis
      using settled_grows[OF grows_installMirrorMods[of s1 env mi miNames]] all by simp
  qed
qed

text \<open>\<^verbatim>\<open>main\<close> without and with a manifest that loads.\<close>

lemma main_not_loaded:
  assumes "loadedManifest env = None"
  shows "\<exists>e. main env s = (Inl e, emit ReadManifest s)"
  using assms
  by (auto simp: loadedManifest_def main_def loadConfig_def Let_def
      split: option.splits sum.splits)

lemma main_loaded:
  assumes "loadedManifest env = Some config"
  shows "completeModList config = Inr (manifestModNames env) \<and>
         main env s =
           installAll env config
             (cleanModsDir
                (emit (Print (''Detecting the following mods:  '' @
                              join '', '' (manifestModNames env)))
                   (emit ReadManifest s)))"
  using assms
  by (auto simp: loadedManifest_def manifestModNames_def main_def loadConfig_def Let_def
      split: option.splits sum.splits)

text \<open>
  C5, as the code has it. After a run that ends without an exception, every mod name of
  either mapping of the manifest has a populated installation directory, or a failure
  line was printed for it, or an archive without members was extracted for it without
  error: then \<^verbatim>\<open>Installation complete.\<close> is printed, and nothing else is left for the
  mod.
\<close>

theorem every_mod_accounted_for:
  assumes "fst (main env (initialState d)) = Inr ()"
    and "modName \<in> set (manifestModNames env)"
  shows "populated modName (snd (main env (initialState d))) \<or>
         failureLogged modName (snd (main env (initialState d))) \<or>
         emptyArchiveInstalled modName (snd (main env (initialState d)))"
proof (cases "loadedManifest env")
  case None
  then show ?thesis using assms(2) by (simp add: manifestModNames_def)
next
  case (Some config)
  note m = main_loaded[OF Some, of "initialState d"]
  have "settled modName (snd (main env (initialState d)))"
    using settled_installAll[of config "manifestModNames env" env _ modName] m assms
    by simp
  then show ?thesis by (simp add: settled_def)
qed

text \<open>In the example world everything is installed; \<^verbatim>\<open>Bar\<close> is one of its mods.\<close>

theorem every_mod_accounted_for_witness:
  "fst (main exampleEnv exampleState) = Inr () \<and>
   ''Bar'' \<in> set (manifestModNames exampleEnv) \<and>
   (populated ''Bar'' (snd (main exampleEnv exampleState)) \<or>
    failureLogged ''Bar'' (snd (main exampleEnv exampleState)) \<or>
    emptyArchiveInstalled ''Bar'' (snd (main exampleEnv exampleState)))"
proof -
  have 1: "fst (main exampleEnv (initialState (Some [''Old'' \<mapsto> [(''Old.dll'', ''0'')]]))) = Inr ()"
    by (simp add: run_defs example_defs)
  have 2: "''Bar'' \<in> set (manifestModNames exampleEnv)"
    by (simp add: manifestModNames_def loadedManifest_def completeModList_def py_getitem_def
        py_keys_def example_defs)
  from every_mod_accounted_for[OF 1 2] 1 2 show ?thesis
    by (simp only: exampleState_def simp_thms)
qed

text \<open>
  The claim fails when an archive has no members: the run of the example world with
  such archives ends without an exception, \<^verbatim>\<open>Bar\<close> has no installation directory, and no
  failure line was printed for it.
\<close>

theorem empty_archive_leaves_nothing:
  "fst (main (exampleEnv\<lparr>unzip := \<lambda>b. (False, [])\<rparr>) exampleState) = Inr () \<and>
   ''Bar'' \<in> set (manifestModNames (exampleEnv\<lparr>unzip := \<lambda>b. (False, [])\<rparr>)) \<and>
   \<not> populated ''Bar'' (snd (main (exampleEnv\<lparr>unzip := \<lambda>b. (False, [])\<rparr>) exampleState)) \<and>
   \<not> failureLogged ''Bar'' (snd (main (exampleEnv\<lparr>unzip := \<lambda>b. (False, [])\<rparr>) exampleState))"
  by (simp add: run_defs notion_defs example_defs)

section \<open>The reset of the managed directory\<close>





section \<open>Fatal failures\<close>

lemma completeModList_missing_key:
  "map_of kvs ''githubReleaseMods'' = None \<or> map_of kvs ''mirrorMods'' = None \<Longrightarrow>
   \<exists>e. completeModList (PDict kvs) = Inl e"
  by (auto simp: completeModList_def py_getitem_def split: sum.splits option.splits)

text \<open>
  C7. When the manifest cannot be read, is not valid YAML, or is a mapping without the
  key \<^verbatim>\<open>githubReleaseMods\<close> or without the key \<^verbatim>\<open>mirrorMods\<close>, an exception leaves
  \<^verbatim>\<open>main\<close> and the script ends with status 1; the run has read the manifest and done
  nothing else, so no install was attempted and the managed directory is as it was.
\<close>

theorem manifest_failure_is_fatal:
  assumes "manifest_text env = None \<or>
           (\<exists>body. manifest_text env = Some body \<and>
              (yaml_safe_load env body = None \<or>
               (\<exists>kvs. yaml_safe_load env body = Some (PDict kvs) \<and>
                  (map_of kvs ''githubReleaseMods'' = None \<or> map_of kvs ''mirrorMods'' = None))))"
  shows "fst (run env s) = 1 \<and>
         (\<exists>e. fst (main env s) = Inl e) \<and>
         events (snd (run env s)) = events s @ [ReadManifest] \<and>
         modsDir (snd (run env s)) = modsDir s"
proof -
  have "loadedManifest env = None"
    using assms
  proof (elim disjE exE conjE)
    assume "manifest_text env = None"
    then show ?thesis by (simp add: loadedManifest_def)
  next
    fix body assume "manifest_text env = Some body" "yaml_safe_load env body = None"
    then show ?thesis by (simp add: loadedManifest_def)
  next
    fix body kvs
    assume l: "manifest_text env = Some body" "yaml_safe_load env body = Some (PDict kvs)"
      and "map_of kvs ''githubReleaseMods'' = None"
    then obtain e where "completeModList (PDict kvs) = Inl e"
      using completeModList_missing_key[of kvs] by blast
    then show ?thesis using l by (simp add: loadedManifest_def)
  next
    fix body kvs
    assume l: "manifest_text env = Some body" "yaml_safe_load env body = Some (PDict kvs)"
      and "map_of kvs ''mirrorMods'' = None"
    then obtain e where "completeModList (PDict kvs) = Inl e"
      using completeModList_missing_key[of kvs] by blast
    then show ?thesis using l by (simp add: loadedManifest_def)
  qed
  from main_not_loaded[OF this, of s] obtain e where "main env s = (Inl e, emit ReadManifest s)" ..
  then show ?thesis
    by (simp add: run_def events_emit modsDir_emit)
qed

text \<open>No manifest; a manifest that is not YAML; a manifest without \<^verbatim>\<open>mirrorMods\<close>.\<close>

theorem manifest_failure_is_fatal_witness:
  "(fst (run (exampleEnv\<lparr>manifest_text := None\<rparr>) exampleState) = 1 \<and>
    events (snd (run (exampleEnv\<lparr>manifest_text := None\<rparr>) exampleState)) = [ReadManifest] \<and>
    modsDir (snd (run (exampleEnv\<lparr>manifest_text := None\<rparr>) exampleState)) =
      modsDir exampleState) \<and>
   (fst (run (exampleEnv\<lparr>yaml_safe_load := \<lambda>t. None\<rparr>) exampleState) = 1 \<and>
    events (snd (run (exampleEnv\<lparr>yaml_safe_load := \<lambda>t. None\<rparr>) exampleState)) =
      [ReadManifest]) \<and>
   (fst (run (exampleEnv\<lparr>yaml_safe_load :=
                 \<lambda>t. Some (PDict [(''githubReleaseMods'', PDict [])])\<rparr>) exampleState) = 1 \<and>
    events (snd (run (exampleEnv\<lparr>yaml_safe_load :=
                 \<lambda>t. Some (PDict [(''githubReleaseMods'', PDict [])])\<rparr>) exampleState)) =
      [ReadManifest])"
  using
    manifest_failure_is_fatal[of "exampleEnv\<lparr>manifest_text := None\<rparr>" exampleState]
    manifest_failure_is_fatal[of "exampleEnv\<lparr>yaml_safe_load := \<lambda>t. None\<rparr>" exampleState]
    manifest_failure_is_fatal[of "exampleEnv\<lparr>yaml_safe_load :=
                 \<lambda>t. Some (PDict [(''githubReleaseMods'', PDict [])])\<rparr>" exampleState]
  by (simp add: exampleEnv_def exampleState_def initialState_def events_def)

lemma scanAssets_missing_name:
  "a \<in> set assets \<Longrightarrow> py_getitem a ''name'' = Inl e0 \<Longrightarrow>
   \<exists>e. scanAssets modName assets u = Inl e"
proof (induction assets arbitrary: u)
  case Nil
  then show ?case by simp
next
  case (Cons x assets)
  show ?case
  proof (cases "x = a")
    case True
    then show ?thesis using Cons.prems(2) by simp
  next
    case False
    then have "\<exists>e. scanAssets modName assets u' = Inl e" for u'
      using Cons.IH Cons.prems by simp
    then show ?thesis
      by (auto split: sum.splits pyval.splits)
  qed
qed

text \<open>An exception of the resolver for one mod of the mapping ends the loop over it.\<close>

lemma installGitHubMods_raises:
  assumes "k \<in> set names" and "py_getitem mods k = Inr repo"
    and "\<And>s. \<exists>e. fst (installLatestGitHubRelease env k repo s) = Inl e"
  shows "\<exists>e. fst (installGitHubMods env mods names s) = Inl e"
  using assms(1)
proof (induction names arbitrary: s)
  case Nil
  then show ?case by simp
next
  case (Cons n names)
  show ?case
  proof (cases "py_getitem mods n")
    case (Inl e)
    then show ?thesis by simp
  next
    case (Inr repo')
    obtain r s' where c: "installLatestGitHubRelease env n repo' s = (r, s')"
      by (cases "installLatestGitHubRelease env n repo' s")
    show ?thesis
    proof (cases r)
      case (Inl e)
      then show ?thesis using Inr c by simp
    next
      case ok: (Inr u)
      have "n \<noteq> k"
      proof
        assume "n = k"
        then have "repo' = repo" using Inr assms(2) by simp
        then show False using assms(3)[of s] c ok \<open>n = k\<close> by simp
      qed
      then have "k \<in> set names" using Cons.prems by simp
      from Cons.IH[OF this, of s'] show ?thesis using Inr c ok by simp
    qed
  qed
qed

lemma main_raises_of_resolver:
  assumes "loadedManifest env = Some config"
    and "py_getitem config ''githubReleaseMods'' = Inr gh"
    and "py_getitem gh modName = Inr modRepo"
    and "\<And>s. \<exists>e. fst (installLatestGitHubRelease env modName modRepo s) = Inl e"
  shows "\<exists>e. fst (main env s) = Inl e"
proof -
  let ?s3 = "cleanModsDir
               (emit (Print (''Detecting the following mods:  '' @
                             join '', '' (manifestModNames env)))
                  (emit ReadManifest s))"
  from main_loaded[OF assms(1), of s]
  have names: "completeModList config = Inr (manifestModNames env)"
    and m: "main env s = installAll env config ?s3" by simp_all
  from names obtain gh' ghNames mi miNames where
    g: "py_getitem config ''githubReleaseMods'' = Inr gh'" "py_keys gh' = Inr ghNames" and
    u: "installAll env config ?s3 =
       (case installGitHubMods env gh' ghNames ?s3 of
          (Inl e, s') \<Rightarrow> (Inl e, s')
        | (Inr u, s') \<Rightarrow> installMirrorMods env mi miNames s')"
    by (rule installAll_unfold)
  have gh: "gh' = gh" using g(1) assms(2) by simp
  have "modName \<in> set ghNames"
    using assms(3) g(2) unfolding gh
    by (rule py_getitem_keys[rotated])
  from installGitHubMods_raises[OF this, of gh modRepo env ?s3] assms(3,4)
  obtain e where "fst (installGitHubMods env gh ghNames ?s3) = Inl e" by blast
  then show ?thesis
    using m u gh by (auto split: prod.splits)
qed

text \<open>
  C10. When the request for the latest release answers, but its body is not valid JSON,
  or is an object without the key \<^verbatim>\<open>assets\<close>, or has a list of assets of which one is an
  object without the key \<^verbatim>\<open>name\<close>, an exception leaves the resolver: it has made the
  request and printed nothing. When the mod is an entry of the manifest's
  \<^verbatim>\<open>githubReleaseMods\<close>, the run ends with status 1.
\<close>

theorem malformed_release_response_is_fatal:
  assumes "urlopen env (releaseUrl env modRepo) = Inr body"
    and "json_loads env body = None \<or>
         (\<exists>kvs. json_loads env body = Some (PDict kvs) \<and>
            (map_of kvs ''assets'' = None \<or>
             (\<exists>assets. map_of kvs ''assets'' = Some (PList assets) \<and>
                (\<exists>a \<in> set assets. \<exists>akvs. a = PDict akvs \<and> map_of akvs ''name'' = None))))"
  shows "(\<exists>e. installLatestGitHubRelease env modName modRepo s =
                 (Inl e, emit (UrlOpen (releaseUrl env modRepo)) s)) \<and>
         (loadedManifest env = Some config \<and>
          py_getitem config ''githubReleaseMods'' = Inr gh \<and>
          py_getitem gh modName = Inr modRepo \<longrightarrow>
            fst (run env s0) = 1)"
proof -
  have raises: "\<exists>e. installLatestGitHubRelease env modName modRepo s =
                 (Inl e, emit (UrlOpen (releaseUrl env modRepo)) s)" for s
    using assms(2)
  proof (elim disjE exE conjE bexE)
    assume "json_loads env body = None"
    then show ?thesis
      using assms(1) by (simp add: installLatestGitHubRelease_def fetchReleases_def)
  next
    fix kvs assume "json_loads env body = Some (PDict kvs)" "map_of kvs ''assets'' = None"
    then show ?thesis
      using assms(1) by (simp add: installLatestGitHubRelease_def fetchReleases_def py_getitem_def)
  next
    fix kvs assets a akvs
    assume j: "json_loads env body = Some (PDict kvs)" "map_of kvs ''assets'' = Some (PList assets)"
      and a: "a \<in> set assets" "a = PDict akvs" "map_of akvs ''name'' = None"
    have "py_getitem a ''name'' = Inl (KeyError ''name'')"
      using a by (simp add: py_getitem_def)
    from scanAssets_missing_name[OF a(1) this, of modName PNone]
    obtain e where "scanAssets modName assets PNone = Inl e" ..
    then show ?thesis
      using assms(1) j
      by (simp add: installLatestGitHubRelease_def fetchReleases_def py_getitem_def py_iter_def)
  qed
  have r: "\<exists>e. fst (installLatestGitHubRelease env modName modRepo s) = Inl e" for s
    using raises[of s] by auto
  have "fst (run env s0) = 1"
    if "loadedManifest env = Some config" "py_getitem config ''githubReleaseMods'' = Inr gh"
      "py_getitem gh modName = Inr modRepo"
  proof -
    from main_raises_of_resolver[OF that r] obtain e where "fst (main env s0) = Inl e"
      by blast
    then show ?thesis
      by (cases "main env s0") (simp add: run_def)
  qed
  then show ?thesis using raises[of s] by blast
qed

text \<open>
  A body that is not JSON; a body without \<^verbatim>\<open>assets\<close>; an asset without \<^verbatim>\<open>name\<close> after one
  that matches.
\<close>

theorem malformed_release_response_is_fatal_witness:
  "((\<exists>e. installLatestGitHubRelease (exampleEnv\<lparr>json_loads := \<lambda>b. None\<rparr>)
            ''Foo'' (PStr ''owner/Foo'') exampleState =
          (Inl e, emit (UrlOpen ''https://api.github.com/repos/owner/Foo/releases/latest'')
                    exampleState)) \<and>
    fst (run (exampleEnv\<lparr>json_loads := \<lambda>b. None\<rparr>) exampleState) = 1) \<and>
   fst (run (exampleEnv\<lparr>json_loads := \<lambda>b. Some (PDict [(''message'', PStr ''Not Found'')])\<rparr>)
          exampleState) = 1 \<and>
   fst (run (exampleEnv\<lparr>json_loads := \<lambda>b. Some (PDict [(''assets'',
               PList [asset ''Foo.zip'' ''http://gh/Foo.zip'',
                      PDict [(''browser_download_url'', PStr ''http://gh/Foo.1.zip'')]])])\<rparr>)
          exampleState) = 1"
  using
    malformed_release_response_is_fatal[where
      env = "exampleEnv\<lparr>json_loads := \<lambda>b. None\<rparr>" and modRepo = "PStr ''owner/Foo''" and
      body = "''releases''" and modName = "''Foo''" and s = exampleState and
      config = exampleManifest and gh = "PDict [(''Foo'', PStr ''owner/Foo'')]" and
      ?s0.0 = exampleState]
    malformed_release_response_is_fatal[where
      env = "exampleEnv\<lparr>json_loads := \<lambda>b. Some (PDict [(''message'', PStr ''Not Found'')])\<rparr>" and
      modRepo = "PStr ''owner/Foo''" and
      body = "''releases''" and modName = "''Foo''" and s = exampleState and
      config = exampleManifest and gh = "PDict [(''Foo'', PStr ''owner/Foo'')]" and
      ?s0.0 = exampleState]
    malformed_release_response_is_fatal[where
      env = "exampleEnv\<lparr>json_loads := \<lambda>b. Some (PDict [(''assets'',
               PList [asset ''Foo.zip'' ''http://gh/Foo.zip'',
                      PDict [(''browser_download_url'', PStr ''http://gh/Foo.1.zip'')]])])\<rparr>" and
      modRepo = "PStr ''owner/Foo''" and
      body = "''releases''" and modName = "''Foo''" and s = exampleState and
      config = exampleManifest and gh = "PDict [(''Foo'', PStr ''owner/Foo'')]" and
      ?s0.0 = exampleState]
  by (simp add: exampleEnv_def exampleManifest_def exampleMirrors_def asset_def releaseUrl_def
      format_value_def loadedManifest_def completeModList_def py_getitem_def py_keys_def)

end
